theory Spec2Isabelle
  imports Main
begin

section \<open>JavaScript values\<close>

text \<open>
  JSON payloads as the client sees them after parsing. Numbers are restricted to the
  integer-valued ones; the code only ever tests a payload for truthiness, for which
  all that matters about a number is whether it is zero. The list of a \<open>JObj\<close> holds
  the own properties of the parsed object.
\<close>

datatype json =
    JNull
  | JBool bool
  | JNum int
  | JStr string
  | JArr "json list"
  | JObj "(string \<times> json) list"

text \<open>JavaScript truthiness, as used by \<^verbatim>\<open>if (data)\<close>, \<^verbatim>\<open>!profile\<close> and \<^verbatim>\<open>a || b\<close>.\<close>

fun truthy :: "json \<Rightarrow> bool" where
  "truthy JNull = False"
| "truthy (JBool b) = b"
| "truthy (JNum n) = (n \<noteq> 0)"
| "truthy (JStr s) = (s \<noteq> [])"
| "truthy (JArr xs) = True"
| "truthy (JObj kvs) = True"

text \<open>A thrown value: an Error object with its \<^verbatim>\<open>message\<close>.\<close>

datatype js_exn = JsError (message: string)

text \<open>
  Decimal rendering of a number inside a template literal. It is what JavaScript prints
  for the non-negative integers below 10^21; the numbers rendered here are HTTP
  statuses (an unsigned short) and day windows.
\<close>

definition digit_char :: "nat \<Rightarrow> char" where
  "digit_char d = ''0123456789'' ! d"

fun show_nat :: "nat \<Rightarrow> string" where
  "show_nat n = (if n < 10 then [digit_char n] else show_nat (n div 10) @ [digit_char (n mod 10)])"

declare show_nat.simps [simp del]

section \<open>The API client\<close>

text \<open>
  What \<^verbatim>\<open>fetch(url, ...)\<close> resolves to: a response with its \<^verbatim>\<open>ok\<close> flag, its
  \<^verbatim>\<open>status\<close> and the outcome of \<^verbatim>\<open>response.json()\<close> (the parsed body, or a rejection
  when the body is not JSON). A network-level failure is a rejection of \<^verbatim>\<open>fetch\<close>
  itself, so the network is a function from the URL to \<open>js_exn + response\<close>.
\<close>

record response =
  ok :: bool
  status :: nat
  json_body :: "js_exn + json"

type_synonym network = "string \<Rightarrow> js_exn + response"

datatype console_entry =
    ConsoleLog string
  | ConsoleError string json
  | ConsoleErrorExn string js_exn

definition BACKEND_URL :: string where
  "BACKEND_URL = ''http://localhost:8000''"

definition API_BASE_URL :: string where
  "API_BASE_URL = BACKEND_URL @ ''/api/v1''"

text \<open>
  \<^verbatim>\<open>errorData.detail\<close>: reading a property of \<^verbatim>\<open>null\<close> throws a TypeError, an object
  yields the property or \<^verbatim>\<open>undefined\<close> (\<open>None\<close>), and no other JSON value has a
  property of that name.
\<close>

fun detail_of :: "json \<Rightarrow> js_exn + json option" where
  "detail_of JNull = Inl (JsError ''Cannot read properties of null (reading 'detail')'')"
| "detail_of (JObj kvs) = Inr (map_of kvs ''detail'')"
| "detail_of (JBool b) = Inr None"
| "detail_of (JNum n) = Inr None"
| "detail_of (JStr s) = Inr None"
| "detail_of (JArr xs) = Inr None"

text \<open>\<^verbatim>\<open>errorData.detail || `API Error: ${response.status}`\<close>\<close>

definition errorMessage_of :: "json option \<Rightarrow> nat \<Rightarrow> json" where
  "errorMessage_of detail st =
     (case detail of
        Some d \<Rightarrow> if truthy d then d else JStr (''API Error: '' @ show_nat st)
      | None \<Rightarrow> JStr (''API Error: '' @ show_nat st))"

text \<open>
  The body of the \<^verbatim>\<open>try\<close> block of \<^verbatim>\<open>fetchApi\<close> (called with the default options, as
  every method of the client does): the console output and either the value returned
  or the exception that leaves the block.
\<close>

definition fetchApi_try :: "network \<Rightarrow> string \<Rightarrow> console_entry list \<times> (js_exn + json)" where
  "fetchApi_try net endpoint =
     (let url = API_BASE_URL @ endpoint;
          out = [ConsoleLog (''Requesting: '' @ url)]
      in case net url of
           Inl e \<Rightarrow> (out, Inl e)
         | Inr resp \<Rightarrow>
             if \<not> ok resp then
               (let errorData = (case json_body resp of Inl e \<Rightarrow> JObj [] | Inr d \<Rightarrow> d)
                in case detail_of errorData of
                     Inl e \<Rightarrow> (out, Inl e)
                   | Inr detail \<Rightarrow>
                       (out @ [ConsoleError (''API Error: '' @ endpoint)
                                 (errorMessage_of detail (status resp))],
                        Inr JNull))
             else (out, json_body resp))"

text \<open>
  \<^verbatim>\<open>fetchApi\<close> with its \<^verbatim>\<open>catch\<close>: the result is the completion of the call,
  \<open>Inr v\<close> for a returned value and \<open>Inl e\<close> for an exception raised to the caller.
\<close>

definition fetchApi :: "network \<Rightarrow> string \<Rightarrow> console_entry list \<times> (js_exn + json)" where
  "fetchApi net endpoint =
     (case fetchApi_try net endpoint of
        (out, Inl e) \<Rightarrow> (out @ [ConsoleErrorExn (''API Error: '' @ endpoint) e], Inr JNull)
      | (out, Inr v) \<Rightarrow> (out, Inr v))"

text \<open>The calls of \<^verbatim>\<open>githubInsightsApi\<close> that the orchestrator issues.\<close>

datatype api_call =
    GetUserProfile string
  | GetUserRepositories string
  | GetUserLanguages string
  | GetActivityTimeline string nat
  | GetRepositoryInsights string
  | GetLanguageTrends string
  | GetContributionHeatmap string nat

fun endpoint_of :: "api_call \<Rightarrow> string" where
  "endpoint_of (GetUserProfile u) = ''/users/'' @ u"
| "endpoint_of (GetUserRepositories u) =
     ''/users/'' @ u @ ''/repositories?sort='' @ ''updated'' @ ''&direction='' @ ''desc''"
| "endpoint_of (GetUserLanguages u) = ''/users/'' @ u @ ''/languages''"
| "endpoint_of (GetActivityTimeline u days) =
     ''/users/'' @ u @ ''/activity-timeline?days='' @ show_nat days"
| "endpoint_of (GetRepositoryInsights u) = ''/users/'' @ u @ ''/repository-insights''"
| "endpoint_of (GetLanguageTrends u) = ''/users/'' @ u @ ''/language-trends''"
| "endpoint_of (GetContributionHeatmap u days) =
     ''/users/'' @ u @ ''/contribution-heatmap?days='' @ show_nat days"

text \<open>An API client as the orchestrator sees it: the completion of each call.\<close>

type_synonym api = "api_call \<Rightarrow> js_exn + json"

definition githubInsightsApi :: "network \<Rightarrow> api" where
  "githubInsightsApi net c = snd (fetchApi net (endpoint_of c))"

section \<open>The data orchestrator\<close>

text \<open>
  The state owned by \<^verbatim>\<open>UserProvider\<close>: one field per \<^verbatim>\<open>useState\<close> cell and one for
  the ref \<^verbatim>\<open>isLoadingRef\<close>. An entity slot holds a JSON value, \<^verbatim>\<open>null\<close> being
  \<open>JNull\<close> and \<^verbatim>\<open>[]\<close> being \<open>JArr []\<close>. The field \<open>apiCalls\<close> is not part of the
  source's state: it records, in order, every call issued to the API client.

  React collects the setter calls made between two renders into a batch and processes
  the batch when it renders. Calls on different cells do not interfere and the calls
  on one cell are processed in the order they were made, so a setter call is applied to
  its cell at once, with one exception. The call \<^verbatim>\<open>setIsLoading(anyLoading)\<close> of
  \<^verbatim>\<open>updateLoadingState\<close> sits inside the updater function given to
  \<^verbatim>\<open>setLoadingStates\<close>; React runs that updater when it processes the batch, so this
  call comes after every direct call of \<^verbatim>\<open>setIsLoading\<close> of the same batch. The field
  \<open>updaterIsLoading\<close> holds the argument of the latest such call of the current batch,
  and \<open>render\<close> ends the batch. The states a component can observe are the rendered ones.
\<close>

datatype loading_key =
  Profile | Repositories | Languages | Activity | Insights | Trends | Contributions

record state =
  username :: string
  userData :: json
  repositories :: json
  languages :: json
  activityData :: json
  repoInsights :: json
  languageTrends :: json
  contributionData :: json
  isLoading :: bool
  loadingStates :: "loading_key \<Rightarrow> bool"
  error :: "string option"
  isLoadingRef :: bool
  recentSearches :: "string list"
  apiCalls :: "api_call list"
  updaterIsLoading :: "bool option"

text \<open>The state of a freshly mounted provider whose history store yielded \<open>rs\<close>.\<close>

definition initial_state :: "string list \<Rightarrow> state" where
  "initial_state rs =
     \<lparr>username = [], userData = JNull, repositories = JArr [], languages = JNull,
      activityData = JNull, repoInsights = JNull, languageTrends = JNull,
      contributionData = JNull, isLoading = False, loadingStates = (\<lambda>k. False),
      error = None, isLoadingRef = False, recentSearches = rs, apiCalls = [],
      updaterIsLoading = None\<rparr>"

text \<open>\<^verbatim>\<open>Object.values(updatedStates).some(Boolean)\<close> over the seven keys of the object.\<close>

definition anyLoading :: "(loading_key \<Rightarrow> bool) \<Rightarrow> bool" where
  "anyLoading st =
     (st Profile \<or> st Repositories \<or> st Languages \<or> st Activity \<or> st Insights
      \<or> st Trends \<or> st Contributions)"

text \<open>
  \<^verbatim>\<open>updateLoadingState\<close>: the updater replaces the flags and calls
  \<^verbatim>\<open>setIsLoading(anyLoading)\<close> when the batch is processed.
\<close>

definition updateLoadingState :: "loading_key \<Rightarrow> bool \<Rightarrow> state \<Rightarrow> state" where
  "updateLoadingState key v s =
     (let updatedStates = (loadingStates s)(key := v)
      in s\<lparr>loadingStates := updatedStates, updaterIsLoading := Some (anyLoading updatedStates)\<rparr>)"

text \<open>
  React processes the batch: the aggregate flag is what the latest updater of the batch
  gave it, or, when no updater ran, what the direct calls left in the cell.
\<close>

definition render :: "state \<Rightarrow> state" where
  "render s =
     s\<lparr>isLoading := (case updaterIsLoading s of Some v \<Rightarrow> v | None \<Rightarrow> isLoading s),
       updaterIsLoading := None\<rparr>"

definition clearUserData :: "state \<Rightarrow> state" where
  "clearUserData s =
     s\<lparr>userData := JNull, repositories := JArr [], languages := JNull, activityData := JNull,
       repoInsights := JNull, languageTrends := JNull, contributionData := JNull,
       error := None\<rparr>"

subsection \<open>The seven single-resource fetch operations\<close>

text \<open>
  Each operation is an \<^verbatim>\<open>async\<close> function with one suspension point, the \<^verbatim>\<open>await\<close> of
  the API call. \<open>f_begin\<close> is the part that runs synchronously when the operation is
  called (its loading flag is raised and the call is issued); \<open>f_resume\<close> is the part
  that runs when the call completes with \<open>r\<close> (\<open>Inr data\<close> when it returns, \<open>Inl e\<close>
  when it raises), the \<^verbatim>\<open>finally\<close> block included, and yields the value the operation
  returns. The call completes in a later task, when React has rendered the batch that
  was pending, so \<open>f_resume\<close> starts from the rendered state. \<open>f\<close> itself is the
  operation run without anything else in between.
\<close>

definition fetchUserProfile_begin :: "string \<Rightarrow> state \<Rightarrow> state" where
  "fetchUserProfile_begin u s =
     (let s1 = updateLoadingState Profile True s
      in s1\<lparr>apiCalls := apiCalls s1 @ [GetUserProfile u]\<rparr>)"

definition fetchUserProfile_resume :: "string \<Rightarrow> js_exn + json \<Rightarrow> state \<Rightarrow> json \<times> state" where
  "fetchUserProfile_resume u r s =
     (let s0 = render s
      in case r of
        Inr d \<Rightarrow>
          if truthy d then (d, updateLoadingState Profile False (s0\<lparr>userData := d\<rparr>))
          else (JNull,
                updateLoadingState Profile False (s0\<lparr>error := Some (''User '' @ u @ '' not found'')\<rparr>))
      | Inl e \<Rightarrow>
          (JNull,
           updateLoadingState Profile False
             (s0\<lparr>error := Some (''Failed to load user profile: ''
                    @ (if message e \<noteq> [] then message e else ''Unknown error''))\<rparr>)))"

definition fetchUserProfile :: "api \<Rightarrow> string \<Rightarrow> state \<Rightarrow> json \<times> state" where
  "fetchUserProfile a u s = fetchUserProfile_resume u (a (GetUserProfile u)) (fetchUserProfile_begin u s)"

definition fetchRepositories_begin :: "string \<Rightarrow> state \<Rightarrow> state" where
  "fetchRepositories_begin u s =
     (let s1 = updateLoadingState Repositories True s
      in s1\<lparr>apiCalls := apiCalls s1 @ [GetUserRepositories u]\<rparr>)"

definition fetchRepositories_resume :: "js_exn + json \<Rightarrow> state \<Rightarrow> json \<times> state" where
  "fetchRepositories_resume r s =
     (let s0 = render s
      in case r of
        Inr d \<Rightarrow>
          if truthy d then (d, updateLoadingState Repositories False (s0\<lparr>repositories := d\<rparr>))
          else (JArr [], updateLoadingState Repositories False (s0\<lparr>repositories := JArr []\<rparr>))
      | Inl e \<Rightarrow> (JArr [], updateLoadingState Repositories False (s0\<lparr>repositories := JArr []\<rparr>)))"

definition fetchRepositories :: "api \<Rightarrow> string \<Rightarrow> state \<Rightarrow> json \<times> state" where
  "fetchRepositories a u s =
     fetchRepositories_resume (a (GetUserRepositories u)) (fetchRepositories_begin u s)"

definition fetchLanguages_begin :: "string \<Rightarrow> state \<Rightarrow> state" where
  "fetchLanguages_begin u s =
     (let s1 = updateLoadingState Languages True s
      in s1\<lparr>apiCalls := apiCalls s1 @ [GetUserLanguages u]\<rparr>)"

definition fetchLanguages_resume :: "js_exn + json \<Rightarrow> state \<Rightarrow> json \<times> state" where
  "fetchLanguages_resume r s =
     (let s0 = render s
      in case r of
        Inr d \<Rightarrow>
          if truthy d then (d, updateLoadingState Languages False (s0\<lparr>languages := d\<rparr>))
          else (JNull, updateLoadingState Languages False (s0\<lparr>languages := JNull\<rparr>))
      | Inl e \<Rightarrow> (JNull, updateLoadingState Languages False (s0\<lparr>languages := JNull\<rparr>)))"

definition fetchLanguages :: "api \<Rightarrow> string \<Rightarrow> state \<Rightarrow> json \<times> state" where
  "fetchLanguages a u s =
     fetchLanguages_resume (a (GetUserLanguages u)) (fetchLanguages_begin u s)"

definition fetchActivityData_begin :: "string \<Rightarrow> nat \<Rightarrow> state \<Rightarrow> state" where
  "fetchActivityData_begin u days s =
     (let s1 = updateLoadingState Activity True s
      in s1\<lparr>apiCalls := apiCalls s1 @ [GetActivityTimeline u days]\<rparr>)"

definition fetchActivityData_resume :: "js_exn + json \<Rightarrow> state \<Rightarrow> json \<times> state" where
  "fetchActivityData_resume r s =
     (let s0 = render s
      in case r of
        Inr d \<Rightarrow>
          if truthy d then (d, updateLoadingState Activity False (s0\<lparr>activityData := d\<rparr>))
          else (JNull, updateLoadingState Activity False (s0\<lparr>activityData := JNull\<rparr>))
      | Inl e \<Rightarrow> (JNull, updateLoadingState Activity False (s0\<lparr>activityData := JNull\<rparr>)))"

definition fetchActivityData :: "api \<Rightarrow> string \<Rightarrow> nat \<Rightarrow> state \<Rightarrow> json \<times> state" where
  "fetchActivityData a u days s =
     fetchActivityData_resume (a (GetActivityTimeline u days)) (fetchActivityData_begin u days s)"

definition fetchRepoInsights_begin :: "string \<Rightarrow> state \<Rightarrow> state" where
  "fetchRepoInsights_begin u s =
     (let s1 = updateLoadingState Insights True s
      in s1\<lparr>apiCalls := apiCalls s1 @ [GetRepositoryInsights u]\<rparr>)"

definition fetchRepoInsights_resume :: "js_exn + json \<Rightarrow> state \<Rightarrow> json \<times> state" where
  "fetchRepoInsights_resume r s =
     (let s0 = render s
      in case r of
        Inr d \<Rightarrow>
          if truthy d then (d, updateLoadingState Insights False (s0\<lparr>repoInsights := d\<rparr>))
          else (JNull, updateLoadingState Insights False (s0\<lparr>repoInsights := JNull\<rparr>))
      | Inl e \<Rightarrow> (JNull, updateLoadingState Insights False (s0\<lparr>repoInsights := JNull\<rparr>)))"

definition fetchRepoInsights :: "api \<Rightarrow> string \<Rightarrow> state \<Rightarrow> json \<times> state" where
  "fetchRepoInsights a u s =
     fetchRepoInsights_resume (a (GetRepositoryInsights u)) (fetchRepoInsights_begin u s)"

definition fetchLanguageTrends_begin :: "string \<Rightarrow> state \<Rightarrow> state" where
  "fetchLanguageTrends_begin u s =
     (let s1 = updateLoadingState Trends True s
      in s1\<lparr>apiCalls := apiCalls s1 @ [GetLanguageTrends u]\<rparr>)"

definition fetchLanguageTrends_resume :: "js_exn + json \<Rightarrow> state \<Rightarrow> json \<times> state" where
  "fetchLanguageTrends_resume r s =
     (let s0 = render s
      in case r of
        Inr d \<Rightarrow>
          if truthy d then (d, updateLoadingState Trends False (s0\<lparr>languageTrends := d\<rparr>))
          else (JNull, updateLoadingState Trends False (s0\<lparr>languageTrends := JNull\<rparr>))
      | Inl e \<Rightarrow> (JNull, updateLoadingState Trends False (s0\<lparr>languageTrends := JNull\<rparr>)))"

definition fetchLanguageTrends :: "api \<Rightarrow> string \<Rightarrow> state \<Rightarrow> json \<times> state" where
  "fetchLanguageTrends a u s =
     fetchLanguageTrends_resume (a (GetLanguageTrends u)) (fetchLanguageTrends_begin u s)"

definition fetchContributionData_begin :: "string \<Rightarrow> nat \<Rightarrow> state \<Rightarrow> state" where
  "fetchContributionData_begin u days s =
     (let s1 = updateLoadingState Contributions True s
      in s1\<lparr>apiCalls := apiCalls s1 @ [GetContributionHeatmap u days]\<rparr>)"

definition fetchContributionData_resume :: "js_exn + json \<Rightarrow> state \<Rightarrow> json \<times> state" where
  "fetchContributionData_resume r s =
     (let s0 = render s
      in case r of
        Inr d \<Rightarrow>
          if truthy d then (d, updateLoadingState Contributions False (s0\<lparr>contributionData := d\<rparr>))
          else (JNull, updateLoadingState Contributions False (s0\<lparr>contributionData := JNull\<rparr>))
      | Inl e \<Rightarrow> (JNull, updateLoadingState Contributions False (s0\<lparr>contributionData := JNull\<rparr>)))"

definition fetchContributionData :: "api \<Rightarrow> string \<Rightarrow> nat \<Rightarrow> state \<Rightarrow> json \<times> state" where
  "fetchContributionData a u days s =
     fetchContributionData_resume (a (GetContributionHeatmap u days))
       (fetchContributionData_begin u days s)"

subsection \<open>The composite load\<close>

text \<open>
  The synchronous entry block of \<^verbatim>\<open>loadUserData\<close>, from taking the guard to the last
  statement before the \<^verbatim>\<open>try\<close>: the guard is set, the previous data is cleared, the
  username is recorded and moved to the front of the recent searches (cut to five),
  and the aggregate loading flag and the error slot are written directly.
\<close>

definition loadUserData_enter :: "string \<Rightarrow> state \<Rightarrow> state" where
  "loadUserData_enter newUsername s =
     (let s1 = s\<lparr>isLoadingRef := True\<rparr>;
          s2 = clearUserData s1;
          s3 = s2\<lparr>username := newUsername\<rparr>;
          s4 = (if newUsername \<noteq> []
                then s3\<lparr>recentSearches :=
                         take 5 (newUsername # filter (\<lambda>name. name \<noteq> newUsername) (recentSearches s3))\<rparr>
                else s3);
          s5 = s4\<lparr>isLoading := True\<rparr>
      in s5\<lparr>error := None\<rparr>)"

text \<open>The six operations of the fan-out, in the order of the array given to \<^verbatim>\<open>Promise.allSettled\<close>.\<close>

datatype fetch_op =
    FetchRepositories
  | FetchLanguages
  | FetchActivityData
  | FetchRepoInsights
  | FetchLanguageTrends
  | FetchContributionData

definition all_fetch_ops :: "fetch_op list" where
  "all_fetch_ops =
     [FetchRepositories, FetchLanguages, FetchActivityData, FetchRepoInsights,
      FetchLanguageTrends, FetchContributionData]"

text \<open>
  Building the array calls the six operations one after the other; each runs up to its
  \<^verbatim>\<open>await\<close>. The activity and contribution fetches get their default windows.
\<close>

definition fanOut_begin :: "string \<Rightarrow> state \<Rightarrow> state" where
  "fanOut_begin u s =
     (let s1 = fetchRepositories_begin u s;
          s2 = fetchLanguages_begin u s1;
          s3 = fetchActivityData_begin u 30 s2;
          s4 = fetchRepoInsights_begin u s3;
          s5 = fetchLanguageTrends_begin u s4
      in fetchContributionData_begin u 365 s5)"

text \<open>One of the six pending calls completes and its operation runs to its end.\<close>

fun settle :: "api \<Rightarrow> string \<Rightarrow> fetch_op \<Rightarrow> state \<Rightarrow> state" where
  "settle a u FetchRepositories s = snd (fetchRepositories_resume (a (GetUserRepositories u)) s)"
| "settle a u FetchLanguages s = snd (fetchLanguages_resume (a (GetUserLanguages u)) s)"
| "settle a u FetchActivityData s = snd (fetchActivityData_resume (a (GetActivityTimeline u 30)) s)"
| "settle a u FetchRepoInsights s = snd (fetchRepoInsights_resume (a (GetRepositoryInsights u)) s)"
| "settle a u FetchLanguageTrends s = snd (fetchLanguageTrends_resume (a (GetLanguageTrends u)) s)"
| "settle a u FetchContributionData s =
     snd (fetchContributionData_resume (a (GetContributionHeatmap u 365)) s)"

text \<open>
  The six calls complete in an order the program does not control: a schedule is the
  order in which they complete, and \<^verbatim>\<open>Promise.allSettled\<close> resumes the load once each
  of the six has completed.
\<close>

definition valid_schedule :: "fetch_op list \<Rightarrow> bool" where
  "valid_schedule sched = (distinct sched \<and> set sched = set all_fetch_ops)"

definition allSettled :: "api \<Rightarrow> string \<Rightarrow> fetch_op list \<Rightarrow> state \<Rightarrow> state" where
  "allSettled a u sched s = fold (settle a u) sched s"

text \<open>
  The \<^verbatim>\<open>finally\<close> block of \<^verbatim>\<open>loadUserData\<close>. Its \<^verbatim>\<open>setIsLoading(false)\<close> is a direct
  call: an updater of the same batch overrides it when the batch is rendered.
\<close>

definition loadUserData_finally :: "state \<Rightarrow> state" where
  "loadUserData_finally s = (s\<lparr>isLoading := False\<rparr>)\<lparr>isLoadingRef := False\<rparr>"

text \<open>
  \<^verbatim>\<open>loadUserData\<close>, run to its end against the API client \<open>a\<close>, the six secondary calls
  completing in the order \<open>sched\<close>. Neither \<^verbatim>\<open>fetchUserProfile\<close> nor
  \<^verbatim>\<open>Promise.allSettled\<close> can reject, so the \<^verbatim>\<open>catch\<close> block is never entered; the
  \<^verbatim>\<open>return\<close> inside the \<^verbatim>\<open>try\<close> still runs the \<^verbatim>\<open>finally\<close> block. The load continues
  after \<^verbatim>\<open>fetchUserProfile\<close> and after the last of the six completions within the same
  task, hence within the same batch. The result is the state when the load returns;
  what is observed then is its rendering.
\<close>

definition loadUserData :: "api \<Rightarrow> fetch_op list \<Rightarrow> string \<Rightarrow> state \<Rightarrow> state" where
  "loadUserData a sched newUsername s =
     (if newUsername = [] then s\<lparr>error := Some ''Username is required''\<rparr>
      else if isLoadingRef s then s
      else
        (let s1 = loadUserData_enter newUsername s;
             (profile, s2) = fetchUserProfile a newUsername s1
         in if \<not> truthy profile then
              (let s3 = s2\<lparr>error := Some (''User '' @ newUsername @ '' not found or API error occurred'')\<rparr>;
                   s4 = s3\<lparr>isLoadingRef := False\<rparr>
               in loadUserData_finally s4)
            else
              (let s3 = fanOut_begin newUsername s2;
                   s4 = allSettled a newUsername sched s3
               in loadUserData_finally s4)))"



section \<open>The local history store\<close>

text \<open>
  The browser's \<^verbatim>\<open>localStorage\<close> maps keys to strings. \<^verbatim>\<open>JSON.parse\<close> and
  \<^verbatim>\<open>JSON.stringify\<close> belong to the platform and are parameters: \<open>parse\<close> yields the
  parsed value or the SyntaxError it throws.
\<close>

type_synonym storage = "string \<rightharpoonup> string"

text \<open>
  The initialiser of the \<^verbatim>\<open>recentSearches\<close> cell: \<^verbatim>\<open>getItem\<close> yields \<^verbatim>\<open>null\<close> for a
  missing key, a missing or empty value gives \<^verbatim>\<open>[]\<close>, and so does an exception. A value
  that parses becomes the content of the cell, whatever it is.
\<close>

definition recentSearches_initial :: "(string \<Rightarrow> js_exn + json) \<Rightarrow> storage \<Rightarrow> json" where
  "recentSearches_initial parse st =
     (case st ''recentSearches'' of
        None \<Rightarrow> JArr []
      | Some saved \<Rightarrow>
          if saved \<noteq> [] then (case parse saved of Inl e \<Rightarrow> JArr [] | Inr v \<Rightarrow> v)
          else JArr [])"

text \<open>
  \<^verbatim>\<open>recentSearches.length\<close> for what the cell may hold: reading a property of \<^verbatim>\<open>null\<close>
  throws a TypeError, an array and a string have a length, an object has the property
  or not, and a number or a boolean has none (\<^verbatim>\<open>undefined\<close>, here \<open>None\<close>).
\<close>

fun length_of :: "json \<Rightarrow> js_exn + json option" where
  "length_of JNull = Inl (JsError ''Cannot read properties of null (reading 'length')'')"
| "length_of (JArr xs) = Inr (Some (JNum (int (length xs))))"
| "length_of (JStr s) = Inr (Some (JNum (int (length s))))"
| "length_of (JObj kvs) = Inr (map_of kvs ''length'')"
| "length_of (JBool b) = Inr None"
| "length_of (JNum n) = Inr None"

text \<open>
  \<^verbatim>\<open>x > 0\<close>: \<^verbatim>\<open>undefined\<close> and \<^verbatim>\<open>null\<close> are not greater than zero, \<^verbatim>\<open>true\<close> counts as
  one and \<^verbatim>\<open>false\<close> as zero. For a string, an array or an object the platform's
  conversion to a number decides, which is the parameter \<open>positive\<close>.
\<close>

fun greater_than_zero :: "(json \<Rightarrow> bool) \<Rightarrow> json option \<Rightarrow> bool" where
  "greater_than_zero positive None = False"
| "greater_than_zero positive (Some JNull) = False"
| "greater_than_zero positive (Some (JBool b)) = b"
| "greater_than_zero positive (Some (JNum n)) = (n > 0)"
| "greater_than_zero positive (Some (JStr x)) = positive (JStr x)"
| "greater_than_zero positive (Some (JArr xs)) = positive (JArr xs)"
| "greater_than_zero positive (Some (JObj kvs)) = positive (JObj kvs)"

text \<open>
  The effect that runs after the first render and after every render in which
  \<^verbatim>\<open>recentSearches\<close> has changed, applied to the content \<open>v\<close> of the cell: the new
  storage, or the exception the effect throws. A cell holding the list of names \<open>rs\<close>
  has the content \<open>JArr (map JStr rs)\<close>.
\<close>

definition recentSearches_effect ::
  "(json \<Rightarrow> string) \<Rightarrow> (json \<Rightarrow> bool) \<Rightarrow> json \<Rightarrow> storage \<Rightarrow> js_exn + storage" where
  "recentSearches_effect stringify positive v st =
     (case length_of v of
        Inl e \<Rightarrow> Inl e
      | Inr len \<Rightarrow>
          if greater_than_zero positive len then Inr (st(''recentSearches'' \<mapsto> stringify v))
          else Inr st)"

section \<open>Vocabulary for the properties\<close>

text \<open>
  The six secondary operations share one shape; these functions name, for each of
  them, its loading key, the call it issues, its entity slot, the empty representation
  of that slot, the operation itself and its synchronous part.
\<close>

fun key_of :: "fetch_op \<Rightarrow> loading_key" where
  "key_of FetchRepositories = Repositories"
| "key_of FetchLanguages = Languages"
| "key_of FetchActivityData = Activity"
| "key_of FetchRepoInsights = Insights"
| "key_of FetchLanguageTrends = Trends"
| "key_of FetchContributionData = Contributions"

fun call_of :: "string \<Rightarrow> fetch_op \<Rightarrow> api_call" where
  "call_of u FetchRepositories = GetUserRepositories u"
| "call_of u FetchLanguages = GetUserLanguages u"
| "call_of u FetchActivityData = GetActivityTimeline u 30"
| "call_of u FetchRepoInsights = GetRepositoryInsights u"
| "call_of u FetchLanguageTrends = GetLanguageTrends u"
| "call_of u FetchContributionData = GetContributionHeatmap u 365"

fun slot :: "fetch_op \<Rightarrow> state \<Rightarrow> json" where
  "slot FetchRepositories s = repositories s"
| "slot FetchLanguages s = languages s"
| "slot FetchActivityData s = activityData s"
| "slot FetchRepoInsights s = repoInsights s"
| "slot FetchLanguageTrends s = languageTrends s"
| "slot FetchContributionData s = contributionData s"

fun empty_of :: "fetch_op \<Rightarrow> json" where
  "empty_of FetchRepositories = JArr []"
| "empty_of FetchLanguages = JNull"
| "empty_of FetchActivityData = JNull"
| "empty_of FetchRepoInsights = JNull"
| "empty_of FetchLanguageTrends = JNull"
| "empty_of FetchContributionData = JNull"

fun run_fetch :: "api \<Rightarrow> string \<Rightarrow> fetch_op \<Rightarrow> state \<Rightarrow> json \<times> state" where
  "run_fetch a u FetchRepositories s = fetchRepositories a u s"
| "run_fetch a u FetchLanguages s = fetchLanguages a u s"
| "run_fetch a u FetchActivityData s = fetchActivityData a u 30 s"
| "run_fetch a u FetchRepoInsights s = fetchRepoInsights a u s"
| "run_fetch a u FetchLanguageTrends s = fetchLanguageTrends a u s"
| "run_fetch a u FetchContributionData s = fetchContributionData a u 365 s"


text \<open>What an operation stores for the completion \<open>r\<close> of its call.\<close>

definition stored :: "fetch_op \<Rightarrow> js_exn + json \<Rightarrow> json" where
  "stored op r = (case r of Inr d \<Rightarrow> if truthy d then d else empty_of op | Inl e \<Rightarrow> empty_of op)"


section \<open>Sample environments\<close>






definition api_absent :: api where
  "api_absent c = Inr JNull"

definition api_raising :: api where
  "api_raising c = Inl (JsError ''Failed to fetch'')"

fun api_languages_absent :: api where
  "api_languages_absent (GetUserProfile u) = Inr (JObj [(''login'', JStr u)])"
| "api_languages_absent (GetUserRepositories u) = Inr (JArr [JObj [(''name'', JStr ''hello-world'')]])"
| "api_languages_absent (GetUserLanguages u) = Inr JNull"
| "api_languages_absent (GetActivityTimeline u d) = Inr (JObj [(''total_events'', JNum 8)])"
| "api_languages_absent (GetRepositoryInsights u) = Inr (JObj [(''total_repos'', JNum 1)])"
| "api_languages_absent (GetLanguageTrends u) = Inr (JObj [(''all_languages'', JArr [JStr ''C''])])"
| "api_languages_absent (GetContributionHeatmap u d) = Inr (JObj [(''total'', JNum 3)])"

text \<open>A load for \<open>octocat\<close> that is waiting for its profile call.\<close>

definition busy_state :: state where
  "busy_state = fetchUserProfile_begin ''octocat'' (loadUserData_enter ''octocat'' (initial_state []))"

text \<open>A standalone profile fetch that is waiting for its call.\<close>

definition profile_pending :: state where
  "profile_pending = fetchUserProfile_begin ''octocat'' (initial_state [])"


text \<open>
  A parser that knows the texts \<^verbatim>\<open>null\<close> and \<^verbatim>\<open>[]\<close> and rejects every other input, a
  conversion to a number under which nothing is positive, and a serialiser for lists
  of plain names.
\<close>

definition parse_literals :: "string \<Rightarrow> js_exn + json" where
  "parse_literals txt =
     (if txt = ''null'' then Inr JNull
      else if txt = ''[]'' then Inr (JArr [])
      else Inl (JsError ''Unexpected token''))"

definition never_positive :: "json \<Rightarrow> bool" where
  "never_positive v = False"

fun join_names :: "string list \<Rightarrow> string" where
  "join_names [] = []"
| "join_names [x] = x"
| "join_names (x # y # zs) = x @ '','' @ join_names (y # zs)"

fun quote_name :: "json \<Rightarrow> string" where
  "quote_name (JStr s) = [CHR 0x22] @ s @ [CHR 0x22]"
| "quote_name j = ''null''"

fun stringify_names :: "json \<Rightarrow> string" where
  "stringify_names (JArr xs) = ''['' @ join_names (map quote_name xs) @ '']''"
| "stringify_names j = ''null''"

text \<open>An order in which the six calls of the fan-out may complete.\<close>

definition sample_schedule :: "fetch_op list" where
  "sample_schedule =
     [FetchContributionData, FetchRepositories, FetchLanguageTrends, FetchLanguages,
      FetchRepoInsights, FetchActivityData]"

section \<open>Completions of the API client\<close>














section \<open>How the operations act on the state\<close>

lemmas resume_defs =
  fetchRepositories_resume_def fetchLanguages_resume_def fetchActivityData_resume_def
  fetchRepoInsights_resume_def fetchLanguageTrends_resume_def fetchContributionData_resume_def

lemmas begin_defs =
  fetchRepositories_begin_def fetchLanguages_begin_def fetchActivityData_begin_def
  fetchRepoInsights_begin_def fetchLanguageTrends_begin_def fetchContributionData_begin_def

lemmas run_defs =
  fetchRepositories_def fetchLanguages_def fetchActivityData_def
  fetchRepoInsights_def fetchLanguageTrends_def fetchContributionData_def

lemma render_frame [simp]:
  "username (render s) = username s"
  "userData (render s) = userData s"
  "repositories (render s) = repositories s"
  "languages (render s) = languages s"
  "activityData (render s) = activityData s"
  "repoInsights (render s) = repoInsights s"
  "languageTrends (render s) = languageTrends s"
  "contributionData (render s) = contributionData s"
  "loadingStates (render s) = loadingStates s"
  "error (render s) = error s"
  "isLoadingRef (render s) = isLoadingRef s"
  "recentSearches (render s) = recentSearches s"
  "apiCalls (render s) = apiCalls s"
  "updaterIsLoading (render s) = None"
  by (simp_all add: render_def)

lemma render_isLoading:
  "isLoading (render s) = (case updaterIsLoading s of Some v \<Rightarrow> v | None \<Rightarrow> isLoading s)"
  by (simp add: render_def)

lemma updateLoadingState_frame [simp]:
  "username (updateLoadingState k v s) = username s"
  "userData (updateLoadingState k v s) = userData s"
  "repositories (updateLoadingState k v s) = repositories s"
  "languages (updateLoadingState k v s) = languages s"
  "activityData (updateLoadingState k v s) = activityData s"
  "repoInsights (updateLoadingState k v s) = repoInsights s"
  "languageTrends (updateLoadingState k v s) = languageTrends s"
  "contributionData (updateLoadingState k v s) = contributionData s"
  "isLoading (updateLoadingState k v s) = isLoading s"
  "error (updateLoadingState k v s) = error s"
  "isLoadingRef (updateLoadingState k v s) = isLoadingRef s"
  "recentSearches (updateLoadingState k v s) = recentSearches s"
  "apiCalls (updateLoadingState k v s) = apiCalls s"
  by (simp_all add: updateLoadingState_def Let_def)

lemma updateLoadingState_flags [simp]:
  "loadingStates (updateLoadingState k v s) = (loadingStates s)(k := v)"
  "updaterIsLoading (updateLoadingState k v s) = Some (anyLoading ((loadingStates s)(k := v)))"
  by (simp_all add: updateLoadingState_def Let_def)


lemma settle_frame [simp]:
  "username (settle a u op s) = username s"
  "userData (settle a u op s) = userData s"
  "error (settle a u op s) = error s"
  "isLoadingRef (settle a u op s) = isLoadingRef s"
  "recentSearches (settle a u op s) = recentSearches s"
  "apiCalls (settle a u op s) = apiCalls s"
  by (cases op; simp add: resume_defs Let_def split: sum.splits)+

lemma settle_flags [simp]:
  "loadingStates (settle a u op s) = (loadingStates s)(key_of op := False)"
  "updaterIsLoading (settle a u op s) = Some (anyLoading ((loadingStates s)(key_of op := False)))"
  by (cases op; simp add: resume_defs Let_def split: sum.splits)+

lemma settle_slot:
  "slot op' (settle a u op s) = (if op' = op then stored op (a (call_of u op)) else slot op' s)"
  by (cases op; cases op'; simp add: resume_defs stored_def Let_def split: sum.splits)

lemma allSettled_frame [simp]:
  "username (allSettled a u sched s) = username s"
  "userData (allSettled a u sched s) = userData s"
  "error (allSettled a u sched s) = error s"
  "isLoadingRef (allSettled a u sched s) = isLoadingRef s"
  "recentSearches (allSettled a u sched s) = recentSearches s"
  "apiCalls (allSettled a u sched s) = apiCalls s"
  unfolding allSettled_def by (induction sched arbitrary: s; simp)+

lemma allSettled_loadingStates:
  "loadingStates (allSettled a u sched s) k =
     (if k \<in> key_of ` set sched then False else loadingStates s k)"
  unfolding allSettled_def by (induction sched arbitrary: s) auto

lemma allSettled_slot:
  "slot op (allSettled a u sched s) =
     (if op \<in> set sched then stored op (a (call_of u op)) else slot op s)"
  unfolding allSettled_def by (induction sched arbitrary: s) (auto simp: settle_slot)

lemma allSettled_updater:
  "updaterIsLoading s = Some (anyLoading (loadingStates s)) \<Longrightarrow>
   updaterIsLoading (allSettled a u sched s) = Some (anyLoading (loadingStates (allSettled a u sched s)))"
proof (induction sched rule: rev_induct)
  case Nil
  then show ?case by (simp add: allSettled_def)
next
  case (snoc op sched)
  have step: "allSettled a u (sched @ [op]) s = settle a u op (allSettled a u sched s)"
    by (simp add: allSettled_def)
  show ?case
    unfolding step by (simp only: settle_flags)
qed

lemma loadUserData_enter_fields [simp]:
  "isLoadingRef (loadUserData_enter u s) = True"
  "isLoading (loadUserData_enter u s) = True"
  "error (loadUserData_enter u s) = None"
  "username (loadUserData_enter u s) = u"
  "loadingStates (loadUserData_enter u s) = loadingStates s"
  "apiCalls (loadUserData_enter u s) = apiCalls s"
  "updaterIsLoading (loadUserData_enter u s) = updaterIsLoading s"
  "recentSearches (loadUserData_enter u s) =
     (if u \<noteq> [] then take 5 (u # filter (\<lambda>name. name \<noteq> u) (recentSearches s)) else recentSearches s)"
  by (simp_all add: loadUserData_enter_def clearUserData_def Let_def)

lemma fetchUserProfile_begin_fields [simp]:
  "loadingStates (fetchUserProfile_begin u s) = (loadingStates s)(Profile := True)"
  "updaterIsLoading (fetchUserProfile_begin u s) = Some True"
  "isLoading (fetchUserProfile_begin u s) = isLoading s"
  "isLoadingRef (fetchUserProfile_begin u s) = isLoadingRef s"
  "error (fetchUserProfile_begin u s) = error s"
  "apiCalls (fetchUserProfile_begin u s) = apiCalls s @ [GetUserProfile u]"
  by (simp_all add: fetchUserProfile_begin_def Let_def anyLoading_def)


lemma fetchUserProfile_frame [simp]:
  "username (snd (fetchUserProfile a u s)) = username s"
  "repositories (snd (fetchUserProfile a u s)) = repositories s"
  "languages (snd (fetchUserProfile a u s)) = languages s"
  "activityData (snd (fetchUserProfile a u s)) = activityData s"
  "repoInsights (snd (fetchUserProfile a u s)) = repoInsights s"
  "languageTrends (snd (fetchUserProfile a u s)) = languageTrends s"
  "contributionData (snd (fetchUserProfile a u s)) = contributionData s"
  "isLoadingRef (snd (fetchUserProfile a u s)) = isLoadingRef s"
  "recentSearches (snd (fetchUserProfile a u s)) = recentSearches s"
  "apiCalls (snd (fetchUserProfile a u s)) = apiCalls s @ [GetUserProfile u]"
  "loadingStates (snd (fetchUserProfile a u s)) = (loadingStates s)(Profile := False)"
  "updaterIsLoading (snd (fetchUserProfile a u s))
     = Some (anyLoading ((loadingStates s)(Profile := False)))"
  by (simp_all add: fetchUserProfile_def fetchUserProfile_begin_def fetchUserProfile_resume_def
        Let_def split: sum.splits)

lemma fetchUserProfile_present:
  "a (GetUserProfile u) = Inr p \<Longrightarrow> truthy p \<Longrightarrow>
   fst (fetchUserProfile a u s) = p \<and> userData (snd (fetchUserProfile a u s)) = p
   \<and> error (snd (fetchUserProfile a u s)) = error s"
  by (simp add: fetchUserProfile_def fetchUserProfile_begin_def fetchUserProfile_resume_def Let_def)

lemma fetchUserProfile_absent:
  "a (GetUserProfile u) = Inr d \<Longrightarrow> \<not> truthy d \<Longrightarrow>
   fst (fetchUserProfile a u s) = JNull \<and> userData (snd (fetchUserProfile a u s)) = userData s
   \<and> error (snd (fetchUserProfile a u s)) = Some (''User '' @ u @ '' not found'')"
  by (simp add: fetchUserProfile_def fetchUserProfile_begin_def fetchUserProfile_resume_def Let_def)

lemma fetchUserProfile_raises:
  "a (GetUserProfile u) = Inl e \<Longrightarrow>
   fst (fetchUserProfile a u s) = JNull \<and> userData (snd (fetchUserProfile a u s)) = userData s
   \<and> error (snd (fetchUserProfile a u s)) =
       Some (''Failed to load user profile: '' @ (if message e \<noteq> [] then message e else ''Unknown error''))"
  by (simp add: fetchUserProfile_def fetchUserProfile_begin_def fetchUserProfile_resume_def Let_def)


lemma fanOut_begin_frame [simp]:
  "username (fanOut_begin u s) = username s"
  "userData (fanOut_begin u s) = userData s"
  "repositories (fanOut_begin u s) = repositories s"
  "languages (fanOut_begin u s) = languages s"
  "activityData (fanOut_begin u s) = activityData s"
  "repoInsights (fanOut_begin u s) = repoInsights s"
  "languageTrends (fanOut_begin u s) = languageTrends s"
  "contributionData (fanOut_begin u s) = contributionData s"
  "error (fanOut_begin u s) = error s"
  "isLoadingRef (fanOut_begin u s) = isLoadingRef s"
  "recentSearches (fanOut_begin u s) = recentSearches s"
  "apiCalls (fanOut_begin u s) = apiCalls s @ map (call_of u) all_fetch_ops"
  "loadingStates (fanOut_begin u s) Profile = loadingStates s Profile"
  "updaterIsLoading (fanOut_begin u s) = Some (anyLoading (loadingStates (fanOut_begin u s)))"
  by (simp_all add: fanOut_begin_def begin_defs Let_def all_fetch_ops_def)

lemma loadUserData_finally_fields [simp]:
  "username (loadUserData_finally s) = username s"
  "userData (loadUserData_finally s) = userData s"
  "repositories (loadUserData_finally s) = repositories s"
  "languages (loadUserData_finally s) = languages s"
  "activityData (loadUserData_finally s) = activityData s"
  "repoInsights (loadUserData_finally s) = repoInsights s"
  "languageTrends (loadUserData_finally s) = languageTrends s"
  "contributionData (loadUserData_finally s) = contributionData s"
  "error (loadUserData_finally s) = error s"
  "isLoadingRef (loadUserData_finally s) = False"
  "isLoading (loadUserData_finally s) = False"
  "loadingStates (loadUserData_finally s) = loadingStates s"
  "recentSearches (loadUserData_finally s) = recentSearches s"
  "apiCalls (loadUserData_finally s) = apiCalls s"
  "updaterIsLoading (loadUserData_finally s) = updaterIsLoading s"
  by (simp_all add: loadUserData_finally_def)

lemma loadUserData_found:
  assumes "u \<noteq> []" "\<not> isLoadingRef s" "a (GetUserProfile u) = Inr p" "truthy p"
  shows "loadUserData a sched u s =
           loadUserData_finally (allSettled a u sched
             (fanOut_begin u (snd (fetchUserProfile a u (loadUserData_enter u s)))))"
  using assms fetchUserProfile_present [of a u p "loadUserData_enter u s"]
  by (simp add: loadUserData_def Let_def case_prod_beta)

lemma loadUserData_not_found:
  assumes "u \<noteq> []" "\<not> isLoadingRef s" "\<not> truthy (fst (fetchUserProfile a u (loadUserData_enter u s)))"
  shows "loadUserData a sched u s =
           loadUserData_finally
             ((snd (fetchUserProfile a u (loadUserData_enter u s)))
                \<lparr>error := Some (''User '' @ u @ '' not found or API error occurred''),
                 isLoadingRef := False\<rparr>)"
  using assms by (simp add: loadUserData_def Let_def case_prod_beta)

lemma loadUserData_recentSearches:
  assumes "u \<noteq> []" "\<not> isLoadingRef s"
  shows "recentSearches (loadUserData a sched u s) =
           take 5 (u # filter (\<lambda>name. name \<noteq> u) (recentSearches s))"
  using assms by (simp add: loadUserData_def Let_def case_prod_beta)

lemma loadUserData_releases_guard:
  assumes "\<not> isLoadingRef s"
  shows "\<not> isLoadingRef (loadUserData a sched u s)"
  using assms by (simp add: loadUserData_def Let_def case_prod_beta)

lemma count_list_filter_neq: "count_list (filter (\<lambda>n. n \<noteq> u) xs) u = 0"
  by (induction xs) auto

lemma count_list_take_zero: "count_list xs u = 0 \<Longrightarrow> count_list (take k xs) u = 0"
  by (metis count_list_0_iff in_set_takeD)

section \<open>Precondition and re-entrancy guard of the composite load\<close>

text \<open>
  Claim C2, as the code has it. For the empty username, \<^verbatim>\<open>loadUserData\<close> writes
  \<^verbatim>\<open>Username is required\<close> into the error slot and does nothing else: every entity, the
  recent searches, every loading flag and the guard keep their values, and no call
  reaches the API client. (The test is \<^verbatim>\<open>!newUsername\<close>, so only the empty string is
  rejected.)
\<close>

theorem empty_username_rejected:
  "loadUserData a sched [] s = s\<lparr>error := Some ''Username is required''\<rparr>"
  by (simp add: loadUserData_def)

theorem empty_username_rejected_witness:
  "error (loadUserData api_absent all_fetch_ops [] (initial_state [''octocat'']))
     = Some ''Username is required''
   \<and> apiCalls (loadUserData api_absent all_fetch_ops [] (initial_state [''octocat''])) = []
   \<and> recentSearches (loadUserData api_absent all_fetch_ops [] (initial_state [''octocat'']))
       = [''octocat'']"
  using empty_username_rejected [of api_absent all_fetch_ops "initial_state [''octocat'']"]
  by (simp add: initial_state_def)

text \<open>
  A username of one space is truthy, so the load goes ahead: the profile call is issued,
  the username enters the recent searches, and the error slot ends up with the
  not-found message rather than \<^verbatim>\<open>Username is required\<close>.
\<close>

theorem whitespace_username_is_loaded:
  "apiCalls (loadUserData api_absent all_fetch_ops '' '' (initial_state [])) = [GetUserProfile '' '']
   \<and> recentSearches (loadUserData api_absent all_fetch_ops '' '' (initial_state [])) = ['' '']
   \<and> error (loadUserData api_absent all_fetch_ops '' '' (initial_state []))
       = Some ''User   not found or API error occurred''
   \<and> error (loadUserData api_absent all_fetch_ops '' '' (initial_state []))
       \<noteq> Some ''Username is required''"
  by (simp add: loadUserData_not_found fetchUserProfile_absent [of api_absent _ JNull]
        api_absent_def initial_state_def)

text \<open>
  Claim C3, as the code has it. For every non-empty username, \<^verbatim>\<open>loadUserData\<close> called
  while the guard \<^verbatim>\<open>isLoadingRef\<close> is set returns with the state exactly as it was: no
  entity, loading flag, error slot, username or recent search changes and no call
  reaches the API client.
\<close>

theorem guarded_load_is_noop:
  "newUsername \<noteq> [] \<Longrightarrow> isLoadingRef s \<Longrightarrow> loadUserData a sched newUsername s = s"
  by (simp add: loadUserData_def)

theorem guarded_load_is_noop_witness:
  "''torvalds'' \<noteq> [] \<and> isLoadingRef busy_state
   \<and> loadUserData api_languages_absent all_fetch_ops ''torvalds'' busy_state = busy_state"
  using guarded_load_is_noop [of "''torvalds''" busy_state api_languages_absent all_fetch_ops]
  by (simp add: busy_state_def fetchUserProfile_begin_def Let_def)

text \<open>
  The username test comes before the guard test: with the guard set by a load in
  progress, the empty username still writes the error slot.
\<close>

theorem guarded_load_empty_username_sets_error:
  "isLoadingRef busy_state \<and> error busy_state = None
   \<and> error (loadUserData api_languages_absent all_fetch_ops [] busy_state)
       = Some ''Username is required''"
  by (simp add: busy_state_def fetchUserProfile_begin_def Let_def loadUserData_def)

section \<open>A missing profile aborts the load\<close>





section \<open>Recent searches\<close>

text \<open>
  Claim C6. Starting from at most five recent searches, a load of a non-empty username
  with the guard free leaves at most five entries, with the username at index 0 and
  occurring exactly once; the entries after it are the earlier entries other than the
  username, in their earlier order, cut to four. So a username already present moves to
  the front and nothing is dropped, a new username is put in front of a list shorter
  than five, and a new username put in front of a list of five drops the last entry.
\<close>

theorem recent_searches_update:
  assumes "length (recentSearches s) \<le> 5" and "u \<noteq> []" and "\<not> isLoadingRef s"
  shows "length (recentSearches (loadUserData a sched u s)) \<le> 5
         \<and> recentSearches (loadUserData a sched u s) ! 0 = u
         \<and> count_list (recentSearches (loadUserData a sched u s)) u = 1
         \<and> tl (recentSearches (loadUserData a sched u s))
             = take 4 (filter (\<lambda>name. name \<noteq> u) (recentSearches s))
         \<and> (u \<in> set (recentSearches s) \<longrightarrow>
              tl (recentSearches (loadUserData a sched u s))
                = filter (\<lambda>name. name \<noteq> u) (recentSearches s))
         \<and> (u \<notin> set (recentSearches s) \<and> length (recentSearches s) < 5 \<longrightarrow>
              recentSearches (loadUserData a sched u s) = u # recentSearches s)
         \<and> (u \<notin> set (recentSearches s) \<and> length (recentSearches s) = 5 \<longrightarrow>
              recentSearches (loadUserData a sched u s) = u # butlast (recentSearches s))"
proof -
  let ?rs = "recentSearches s"
  let ?f = "filter (\<lambda>name. name \<noteq> u) ?rs"
  have new: "recentSearches (loadUserData a sched u s) = u # take 4 ?f"
    using assms(2,3) by (simp add: loadUserData_recentSearches)
  have cnt: "count_list (take 4 ?f) u = 0"
    by (simp add: count_list_take_zero count_list_filter_neq)
  have present: "length ?f \<le> 4" if "u \<in> set ?rs"
  proof -
    have "length ?f < length ?rs" using that by (simp add: length_filter_less)
    then show ?thesis using assms(1) by simp
  qed
  have absent: "?f = ?rs" if "u \<notin> set ?rs"
    using that by (auto simp add: filter_id_conv)
  have full: "take 4 ?rs = butlast ?rs" if "length ?rs = 5"
    using that by (simp add: butlast_conv_take)
  show ?thesis
    using new cnt present absent full by auto
qed

theorem recent_searches_update_witness:
  "recentSearches (loadUserData api_absent all_fetch_ops ''a'' (initial_state [''b'', ''a'']))
     = [''a'', ''b'']
   \<and> recentSearches (loadUserData api_languages_absent all_fetch_ops ''c''
        (initial_state [''e'', ''d'', ''c2'', ''b'', ''a''])) = [''c'', ''e'', ''d'', ''c2'', ''b'']
   \<and> recentSearches (loadUserData api_absent all_fetch_ops ''c'' (initial_state [''b'', ''a'']))
       = [''c'', ''b'', ''a'']"
  using recent_searches_update [of "initial_state [''b'', ''a'']" "''a''" api_absent all_fetch_ops]
        recent_searches_update [of "initial_state [''e'', ''d'', ''c2'', ''b'', ''a'']" "''c''"
          api_languages_absent all_fetch_ops]
        recent_searches_update [of "initial_state [''b'', ''a'']" "''c''" api_absent all_fetch_ops]
  by (simp add: initial_state_def loadUserData_recentSearches)

text \<open>
  Claim C10. The filter compares usernames with \<^verbatim>\<open>!==\<close>, that is as strings: two
  different non-empty usernames, such as two that differ only in the case of a letter,
  searched one after the other, are both in the list afterwards, the second at index 0
  and the first at index 1, each exactly once.
\<close>

theorem recent_searches_exact_equality:
  assumes "x \<noteq> []" and "y \<noteq> []" and "x \<noteq> y" and "\<not> isLoadingRef s"
  shows "take 2 (recentSearches (loadUserData a2 sched2 y (loadUserData a1 sched1 x s))) = [y, x]
         \<and> count_list (recentSearches (loadUserData a2 sched2 y (loadUserData a1 sched1 x s))) x = 1
         \<and> count_list (recentSearches (loadUserData a2 sched2 y (loadUserData a1 sched1 x s))) y = 1"
proof -
  let ?s1 = "loadUserData a1 sched1 x s"
  let ?f = "filter (\<lambda>name. name \<noteq> x) (recentSearches s)"
  have free: "\<not> isLoadingRef ?s1"
    using assms(4) by (rule loadUserData_releases_guard)
  have first: "recentSearches ?s1 = x # take 4 ?f"
    using assms(1,4) by (simp add: loadUserData_recentSearches)
  let ?g = "filter (\<lambda>name. name \<noteq> y) (take 4 ?f)"
  have second: "recentSearches (loadUserData a2 sched2 y ?s1) = y # x # take 3 ?g"
    using assms(2,3) free first by (simp add: loadUserData_recentSearches)
  have "count_list (take 4 ?f) x = 0"
    by (simp add: count_list_take_zero count_list_filter_neq)
  then have "x \<notin> set (take 4 ?f)"
    by (simp add: count_list_0_iff)
  then have "x \<notin> set (take 3 ?g)"
    by (meson filter_is_subset in_set_takeD subsetD)
  then have cx: "count_list (take 3 ?g) x = 0"
    by (simp add: count_list_0_iff)
  have cy: "count_list (take 3 ?g) y = 0"
    by (simp add: count_list_take_zero count_list_filter_neq)
  show ?thesis
    using second cx cy assms(3) by simp
qed

theorem recent_searches_exact_equality_witness:
  "''Foo'' \<noteq> [] \<and> ''foo'' \<noteq> [] \<and> ''Foo'' \<noteq> ''foo'' \<and> \<not> isLoadingRef (initial_state [])
   \<and> recentSearches (loadUserData api_absent all_fetch_ops ''foo''
        (loadUserData api_absent all_fetch_ops ''Foo'' (initial_state []))) = [''foo'', ''Foo'']"
  using recent_searches_exact_equality [of "''Foo''" "''foo''" "initial_state []"
          api_absent all_fetch_ops api_absent all_fetch_ops]
  by (simp add: initial_state_def loadUserData_recentSearches loadUserData_releases_guard)

section \<open>A failed standalone profile fetch\<close>

text \<open>
  Claim C9, as the code has it. When \<^verbatim>\<open>fetchUserProfile\<close> runs on its own and its call
  returns \<^verbatim>\<open>null\<close> or raises, it returns \<^verbatim>\<open>null\<close> and the stored profile keeps its
  value, as do the six other entities, the username, the recent searches, the guard
  and the six other loading flags. What changes is the error slot (the not-found
  message, or the failure message with the exception's text), the profile loading
  flag (false at the end) and the aggregate flag, which the updater sets to the OR of
  the flags, here the OR of the six others.
\<close>

theorem standalone_profile_failure_frame:
  assumes "a (GetUserProfile u) = Inr JNull \<or> (\<exists>e. a (GetUserProfile u) = Inl e)"
  shows "fst (fetchUserProfile a u s) = JNull
         \<and> userData (snd (fetchUserProfile a u s)) = userData s
         \<and> repositories (snd (fetchUserProfile a u s)) = repositories s
         \<and> languages (snd (fetchUserProfile a u s)) = languages s
         \<and> activityData (snd (fetchUserProfile a u s)) = activityData s
         \<and> repoInsights (snd (fetchUserProfile a u s)) = repoInsights s
         \<and> languageTrends (snd (fetchUserProfile a u s)) = languageTrends s
         \<and> contributionData (snd (fetchUserProfile a u s)) = contributionData s
         \<and> username (snd (fetchUserProfile a u s)) = username s
         \<and> recentSearches (snd (fetchUserProfile a u s)) = recentSearches s
         \<and> isLoadingRef (snd (fetchUserProfile a u s)) = isLoadingRef s
         \<and> loadingStates (snd (fetchUserProfile a u s)) = (loadingStates s)(Profile := False)
         \<and> isLoading (render (snd (fetchUserProfile a u s)))
             = (loadingStates s Repositories \<or> loadingStates s Languages \<or> loadingStates s Activity
                \<or> loadingStates s Insights \<or> loadingStates s Trends \<or> loadingStates s Contributions)
         \<and> error (snd (fetchUserProfile a u s)) =
             Some (case a (GetUserProfile u) of
                     Inr d \<Rightarrow> ''User '' @ u @ '' not found''
                   | Inl e \<Rightarrow> ''Failed to load user profile: ''
                        @ (if message e \<noteq> [] then message e else ''Unknown error''))
         \<and> apiCalls (snd (fetchUserProfile a u s)) = apiCalls s @ [GetUserProfile u]"
proof -
  have agg: "isLoading (render (snd (fetchUserProfile a u s)))
      = (loadingStates s Repositories \<or> loadingStates s Languages \<or> loadingStates s Activity
         \<or> loadingStates s Insights \<or> loadingStates s Trends \<or> loadingStates s Contributions)"
    by (simp add: render_isLoading anyLoading_def)
  from assms show ?thesis
  proof
    assume "a (GetUserProfile u) = Inr JNull"
    then show ?thesis
      using agg fetchUserProfile_absent [of a u JNull s] by simp
  next
    assume "\<exists>e. a (GetUserProfile u) = Inl e"
    then obtain e where "a (GetUserProfile u) = Inl e" ..
    then show ?thesis
      using agg fetchUserProfile_raises [of a u e s] by simp
  qed
qed

theorem standalone_profile_failure_frame_witness:
  "api_absent (GetUserProfile ''ghost'') = Inr JNull
   \<and> fst (fetchUserProfile api_absent ''ghost'' (initial_state [])) = JNull
   \<and> error (snd (fetchUserProfile api_absent ''ghost'' (initial_state []))) = Some ''User ghost not found''
   \<and> error (snd (fetchUserProfile api_raising ''octocat'' (initial_state [])))
       = Some ''Failed to load user profile: Failed to fetch''
   \<and> userData (snd (fetchUserProfile api_raising ''octocat''
        ((initial_state [])\<lparr>userData := JObj [(''login'', JStr ''torvalds'')]\<rparr>)))
       = JObj [(''login'', JStr ''torvalds'')]"
  using standalone_profile_failure_frame [of api_absent "''ghost''" "initial_state []"]
        standalone_profile_failure_frame [of api_raising "''octocat''" "initial_state []"]
        standalone_profile_failure_frame [of api_raising "''octocat''"
          "(initial_state [])\<lparr>userData := JObj [(''login'', JStr ''torvalds'')]\<rparr>"]
  by (simp add: api_absent_def api_raising_def)

text \<open>
  The aggregate flag is among the cells a failed standalone profile fetch writes: with
  another profile fetch waiting for its call, the flag is true before and false after.
\<close>

theorem standalone_profile_fetch_changes_aggregate:
  "isLoading (render profile_pending)
   \<and> api_absent (GetUserProfile ''ghost'') = Inr JNull
   \<and> \<not> isLoading (render (snd (fetchUserProfile api_absent ''ghost'' profile_pending)))"
  by (simp add: render_isLoading anyLoading_def profile_pending_def initial_state_def
        api_absent_def)

section \<open>Startup and persistence of the history store\<close>

lemma recentSearches_effect_names:
  "recentSearches_effect stringify positive (JArr (map JStr rs)) st =
     (if rs \<noteq> [] then Inr (st(''recentSearches'' \<mapsto> stringify (JArr (map JStr rs)))) else Inr st)"
  by (simp add: recentSearches_effect_def)

text \<open>
  Claim C8, on the code. The initial content of the recent searches is the empty list
  when the storage has no value under the key, when the value is empty and when parsing
  it throws; a value that parses becomes the content as it is. The effect writes the
  serialised list under the key when the cell holds a non-empty list of names and
  writes nothing when the list is empty. When the cell holds \<^verbatim>\<open>null\<close>, which is what a
  stored text \<^verbatim>\<open>null\<close> parses to, the effect throws: this stored value does make the
  startup fail.
\<close>

theorem history_store_behaviour:
  "(st ''recentSearches'' = None \<longrightarrow> recentSearches_initial parse st = JArr [])
   \<and> (st ''recentSearches'' = Some [] \<longrightarrow> recentSearches_initial parse st = JArr [])
   \<and> (\<forall>saved e. st ''recentSearches'' = Some saved \<and> parse saved = Inl e \<longrightarrow>
         recentSearches_initial parse st = JArr [])
   \<and> (\<forall>saved v. st ''recentSearches'' = Some saved \<and> saved \<noteq> [] \<and> parse saved = Inr v \<longrightarrow>
         recentSearches_initial parse st = v)
   \<and> (rs \<noteq> [] \<longrightarrow>
         recentSearches_effect stringify positive (JArr (map JStr rs)) st
           = Inr (st(''recentSearches'' \<mapsto> stringify (JArr (map JStr rs)))))
   \<and> recentSearches_effect stringify positive (JArr []) st = Inr st
   \<and> (\<exists>e. recentSearches_effect stringify positive JNull st = Inl e)
   \<and> (\<forall>saved. st ''recentSearches'' = Some saved \<and> saved \<noteq> [] \<and> parse saved = Inr JNull \<longrightarrow>
         (\<exists>e. recentSearches_effect stringify positive (recentSearches_initial parse st) st = Inl e))"
proof -
  have null: "\<exists>e. recentSearches_effect stringify positive JNull st = Inl e"
    by (simp add: recentSearches_effect_def)
  have names: "rs \<noteq> [] \<longrightarrow>
      recentSearches_effect stringify positive (JArr (map JStr rs)) st
        = Inr (st(''recentSearches'' \<mapsto> stringify (JArr (map JStr rs))))"
    by (simp add: recentSearches_effect_names)
  have empty: "recentSearches_effect stringify positive (JArr []) st = Inr st"
    by (simp add: recentSearches_effect_def)
  show ?thesis
    using null names empty by (auto simp add: recentSearches_initial_def)
qed

theorem history_store_behaviour_witness:
  "recentSearches_initial parse_literals Map.empty = JArr []
   \<and> recentSearches_initial parse_literals [''recentSearches'' \<mapsto> ''[oops''] = JArr []
   \<and> recentSearches_effect stringify_names never_positive (JArr (map JStr [''a'', ''b''])) Map.empty
       = Inr [''recentSearches'' \<mapsto>
               [CHR ''['', CHR 0x22, CHR ''a'', CHR 0x22, CHR '','', CHR 0x22, CHR ''b'', CHR 0x22, CHR '']'']]
   \<and> recentSearches_effect stringify_names never_positive (JArr []) Map.empty = Inr Map.empty
   \<and> recentSearches_initial parse_literals [''recentSearches'' \<mapsto> ''null''] = JNull
   \<and> recentSearches_effect stringify_names never_positive
        (recentSearches_initial parse_literals [''recentSearches'' \<mapsto> ''null''])
        [''recentSearches'' \<mapsto> ''null'']
       = Inl (JsError ''Cannot read properties of null (reading 'length')'')"
  using history_store_behaviour [of Map.empty parse_literals "[''a'', ''b'']" stringify_names never_positive]
        history_store_behaviour [of "[''recentSearches'' \<mapsto> ''[oops'']" parse_literals "[]"
          stringify_names never_positive]
        history_store_behaviour [of "[''recentSearches'' \<mapsto> ''null'']" parse_literals "[]"
          stringify_names never_positive]
  by (simp add: parse_literals_def recentSearches_effect_def recentSearches_initial_def)

section \<open>Failures of the secondary fetches stay local\<close>

lemma run_fetch_result:
  "fst (run_fetch a u op s) = stored op (a (call_of u op))"
  "slot op (snd (run_fetch a u op s)) = stored op (a (call_of u op))"
  "\<not> loadingStates (snd (run_fetch a u op s)) (key_of op)"
  "error (snd (run_fetch a u op s)) = error s"
  "updaterIsLoading (snd (run_fetch a u op s))
     = Some (anyLoading (loadingStates (snd (run_fetch a u op s))))"
  by (cases op; simp add: run_defs begin_defs resume_defs stored_def Let_def split: sum.splits)+

lemma stored_absent:
  "r = Inr JNull \<or> (\<exists>e. r = Inl e) \<Longrightarrow> stored op r = empty_of op"
  by (auto simp add: stored_def)

lemma stored_present: "r = Inr d \<Longrightarrow> truthy d \<Longrightarrow> Inr (stored op r) = r"
  by (simp add: stored_def)

lemma valid_schedule_mem: "valid_schedule sched \<Longrightarrow> op \<in> set sched"
  by (cases op; simp add: valid_schedule_def all_fetch_ops_def)

lemma valid_schedule_keys:
  "valid_schedule sched \<Longrightarrow> k \<noteq> Profile \<Longrightarrow> k \<in> key_of ` set sched"
  by (cases k; simp add: valid_schedule_def all_fetch_ops_def)

lemma loadUserData_found_fields:
  assumes "u \<noteq> []" "\<not> isLoadingRef s" "valid_schedule sched"
    and "a (GetUserProfile u) = Inr p" "truthy p"
  shows "slot op (loadUserData a sched u s) = stored op (a (call_of u op))"
    and "error (loadUserData a sched u s) = None"
    and "userData (loadUserData a sched u s) = p"
    and "loadingStates (loadUserData a sched u s) k = False"
    and "updaterIsLoading (loadUserData a sched u s)
           = Some (anyLoading (loadingStates (loadUserData a sched u s)))"
proof -
  let ?s2 = "snd (fetchUserProfile a u (loadUserData_enter u s))"
  have run: "loadUserData a sched u s =
               loadUserData_finally (allSettled a u sched (fanOut_begin u ?s2))"
    using assms(1,2,4,5) by (rule loadUserData_found)
  have "slot op (loadUserData_finally st) = slot op st" for st
    by (cases op) simp_all
  then show "slot op (loadUserData a sched u s) = stored op (a (call_of u op))"
    using valid_schedule_mem [OF assms(3), of op] by (simp add: run allSettled_slot)
  show "error (loadUserData a sched u s) = None"
    using assms(4,5) fetchUserProfile_present [of a u p "loadUserData_enter u s"] by (simp add: run)
  show "userData (loadUserData a sched u s) = p"
    using assms(4,5) fetchUserProfile_present [of a u p "loadUserData_enter u s"] by (simp add: run)
  show "loadingStates (loadUserData a sched u s) k = False"
    using valid_schedule_keys [OF assms(3), of k]
    by (cases "k = Profile") (simp_all add: run allSettled_loadingStates)
  show "updaterIsLoading (loadUserData a sched u s)
          = Some (anyLoading (loadingStates (loadUserData a sched u s)))"
    by (simp add: run allSettled_updater)
qed

lemma api_languages_absent_others:
  "op' \<noteq> FetchLanguages \<Longrightarrow> \<exists>d. api_languages_absent (call_of u op') = Inr d \<and> truthy d"
  by (cases op') simp_all

lemma sample_schedule_valid: "valid_schedule sample_schedule"
  by (auto simp add: valid_schedule_def sample_schedule_def all_fetch_ops_def)

text \<open>
  Claim C5. For each of the six secondary fetch operations: when its call returns
  \<^verbatim>\<open>null\<close> or raises, the operation returns the empty representation of its resource
  (\<^verbatim>\<open>[]\<close> for the repositories, \<^verbatim>\<open>null\<close> for the others) and stores it in the entity
  slot; whatever the call does, the operation ends with its own loading flag false and
  with the error slot as it found it. And for the composite load of a non-empty
  username with the guard free, whatever the order in which the six calls complete: if
  the profile is found, one secondary call returns \<^verbatim>\<open>null\<close> and the five others return
  data, then that resource holds its empty representation, each of the five others
  holds what its call returned, the profile slot holds the profile, and the error slot
  is unset.
\<close>

theorem secondary_fetch_absent:
  "(a (call_of u op) = Inr JNull \<or> (\<exists>e. a (call_of u op) = Inl e) \<longrightarrow>
      fst (run_fetch a u op s) = empty_of op
      \<and> slot op (snd (run_fetch a u op s)) = empty_of op)
   \<and> \<not> loadingStates (snd (run_fetch a u op s)) (key_of op)
   \<and> error (snd (run_fetch a u op s)) = error s
   \<and> (u \<noteq> [] \<and> \<not> isLoadingRef s \<and> valid_schedule sched
       \<and> (\<exists>p. a (GetUserProfile u) = Inr p \<and> truthy p)
       \<and> a (call_of u op) = Inr JNull
       \<and> (\<forall>op'. op' \<noteq> op \<longrightarrow> (\<exists>d. a (call_of u op') = Inr d \<and> truthy d)) \<longrightarrow>
         slot op (loadUserData a sched u s) = empty_of op
         \<and> (\<forall>op'. op' \<noteq> op \<longrightarrow> a (call_of u op') = Inr (slot op' (loadUserData a sched u s)))
         \<and> a (GetUserProfile u) = Inr (userData (loadUserData a sched u s))
         \<and> error (loadUserData a sched u s) = None)"
proof (intro conjI impI)
  assume "a (call_of u op) = Inr JNull \<or> (\<exists>e. a (call_of u op) = Inl e)"
  then have "stored op (a (call_of u op)) = empty_of op"
    by (rule stored_absent)
  then show "fst (run_fetch a u op s) = empty_of op"
    and "slot op (snd (run_fetch a u op s)) = empty_of op"
    by (simp_all add: run_fetch_result)
next
  show "\<not> loadingStates (snd (run_fetch a u op s)) (key_of op)"
    by (rule run_fetch_result)
  show "error (snd (run_fetch a u op s)) = error s"
    by (rule run_fetch_result)
next
  assume h: "u \<noteq> [] \<and> \<not> isLoadingRef s \<and> valid_schedule sched
       \<and> (\<exists>p. a (GetUserProfile u) = Inr p \<and> truthy p)
       \<and> a (call_of u op) = Inr JNull
       \<and> (\<forall>op'. op' \<noteq> op \<longrightarrow> (\<exists>d. a (call_of u op') = Inr d \<and> truthy d))"
  then obtain p where p: "a (GetUserProfile u) = Inr p" "truthy p"
    by blast
  note fields = loadUserData_found_fields [of u s sched a p]
  have slots: "slot op' (loadUserData a sched u s) = stored op' (a (call_of u op'))" for op'
    using h p by (simp add: fields)
  show "slot op (loadUserData a sched u s) = empty_of op"
    using h by (simp add: slots stored_absent)
  show "\<forall>op'. op' \<noteq> op \<longrightarrow> a (call_of u op') = Inr (slot op' (loadUserData a sched u s))"
  proof (intro allI impI)
    fix op' assume "op' \<noteq> op"
    then obtain d where "a (call_of u op') = Inr d" "truthy d"
      using h by blast
    then show "a (call_of u op') = Inr (slot op' (loadUserData a sched u s))"
      by (simp add: slots stored_def)
  qed
  show "a (GetUserProfile u) = Inr (userData (loadUserData a sched u s))"
    using h p by (simp add: fields)
  show "error (loadUserData a sched u s) = None"
    using h p by (simp add: fields)
qed

theorem secondary_fetch_absent_witness:
  "valid_schedule sample_schedule
   \<and> api_languages_absent (GetUserLanguages ''octocat'') = Inr JNull
   \<and> languages (loadUserData api_languages_absent sample_schedule ''octocat''
        ((initial_state [])\<lparr>languages := JObj [(''C'', JNum 100)]\<rparr>)) = JNull
   \<and> repositories (loadUserData api_languages_absent sample_schedule ''octocat''
        ((initial_state [])\<lparr>languages := JObj [(''C'', JNum 100)]\<rparr>))
       = JArr [JObj [(''name'', JStr ''hello-world'')]]
   \<and> contributionData (loadUserData api_languages_absent sample_schedule ''octocat''
        ((initial_state [])\<lparr>languages := JObj [(''C'', JNum 100)]\<rparr>))
       = JObj [(''total'', JNum 3)]
   \<and> error (loadUserData api_languages_absent sample_schedule ''octocat''
        ((initial_state [])\<lparr>languages := JObj [(''C'', JNum 100)]\<rparr>)) = None
   \<and> fst (fetchRepositories api_raising ''octocat''
        ((initial_state [])\<lparr>repositories := JArr [JStr ''old'']\<rparr>)) = JArr []
   \<and> repositories (snd (fetchRepositories api_raising ''octocat''
        ((initial_state [])\<lparr>repositories := JArr [JStr ''old'']\<rparr>))) = JArr []"
proof -
  let ?s = "(initial_state [])\<lparr>languages := JObj [(''C'', JNum 100)]\<rparr>"
  let ?t = "(initial_state [])\<lparr>repositories := JArr [JStr ''old'']\<rparr>"
  have guard: "\<not> isLoadingRef ?s"
    by (simp add: initial_state_def)
  have others: "\<forall>op'. op' \<noteq> FetchLanguages \<longrightarrow>
      (\<exists>d. api_languages_absent (call_of ''octocat'' op') = Inr d \<and> truthy d)"
    using api_languages_absent_others by blast
  have composite:
    "slot FetchLanguages (loadUserData api_languages_absent sample_schedule ''octocat'' ?s)
       = empty_of FetchLanguages
     \<and> (\<forall>op'. op' \<noteq> FetchLanguages \<longrightarrow>
          api_languages_absent (call_of ''octocat'' op')
            = Inr (slot op' (loadUserData api_languages_absent sample_schedule ''octocat'' ?s)))
     \<and> api_languages_absent (GetUserProfile ''octocat'')
         = Inr (userData (loadUserData api_languages_absent sample_schedule ''octocat'' ?s))
     \<and> error (loadUserData api_languages_absent sample_schedule ''octocat'' ?s) = None"
    using secondary_fetch_absent [of api_languages_absent "''octocat''" FetchLanguages ?s
            sample_schedule] guard others sample_schedule_valid
    by simp
  then have langs: "languages (loadUserData api_languages_absent sample_schedule ''octocat'' ?s) = JNull"
    and err: "error (loadUserData api_languages_absent sample_schedule ''octocat'' ?s) = None"
    and rest: "\<forall>op'. op' \<noteq> FetchLanguages \<longrightarrow>
          api_languages_absent (call_of ''octocat'' op')
            = Inr (slot op' (loadUserData api_languages_absent sample_schedule ''octocat'' ?s))"
    by simp_all
  have repos: "repositories (loadUserData api_languages_absent sample_schedule ''octocat'' ?s)
      = JArr [JObj [(''name'', JStr ''hello-world'')]]"
    using spec [OF rest, of FetchRepositories] by simp
  have contr: "contributionData (loadUserData api_languages_absent sample_schedule ''octocat'' ?s)
      = JObj [(''total'', JNum 3)]"
    using spec [OF rest, of FetchContributionData] by simp
  have standalone:
    "fst (run_fetch api_raising ''octocat'' FetchRepositories ?t) = empty_of FetchRepositories
     \<and> slot FetchRepositories (snd (run_fetch api_raising ''octocat'' FetchRepositories ?t))
         = empty_of FetchRepositories"
    using secondary_fetch_absent [of api_raising "''octocat''" FetchRepositories ?t sample_schedule]
    by (simp add: api_raising_def)
  show ?thesis
    using langs repos contr err standalone sample_schedule_valid by simp
qed

section \<open>The aggregate loading flag\<close>


















end
